theory Spec2Isabelle
  imports Main
begin

section \<open>JavaScript values held by the poll block's attributes\<close>

text \<open>
  The identifier fields of the poll block hold \<open>null\<close> (the schema default), nothing at
  all (an answer created as \<open>{}\<close> reads \<open>undefined\<close>), a number (what the schema
  declares) or a string (what \<open>uuidv4()\<close> returns). Numbers are integers here: no
  modelled function computes with them, they are only tested for truthiness and type.
\<close>

datatype jsval = JNull | JUndefined | JBool bool | JNum int | JStr string

text \<open>JavaScript's truthiness, as \<open>!x\<close>, \<open>x && y\<close> and \<open>x || y\<close> test it.\<close>

fun truthy :: "jsval \<Rightarrow> bool" where
  "truthy JNull = False"
| "truthy JUndefined = False"
| "truthy (JBool b) = b"
| "truthy (JNum n) = (n \<noteq> 0)"
| "truthy (JStr s) = (s \<noteq> [])"

text \<open>\<open>x || y\<close> and \<open>x && y\<close> return one of their operands.\<close>

definition js_or :: "jsval \<Rightarrow> jsval \<Rightarrow> jsval" where
  "js_or x y = (if truthy x then x else y)"

definition js_and :: "jsval \<Rightarrow> jsval \<Rightarrow> jsval" where
  "js_and x y = (if truthy x then y else x)"

section \<open>The attribute schema (attributes.js)\<close>

datatype attr_type = TNumber | TBoolean | TString | TArray | TObject

text \<open>The \<open>type\<close> entries of the schema for the fields the edit component writes.\<close>

definition schema_pollId_type :: attr_type where
  "schema_pollId_type = TNumber"

definition schema_answerId_type :: attr_type where
  "schema_answerId_type = TNumber"

definition schema_text_type :: attr_type where
  "schema_text_type = TString"

text \<open>A value has a declared primitive type when its JavaScript \<open>typeof\<close> is that type.\<close>

fun has_type :: "jsval \<Rightarrow> attr_type \<Rightarrow> bool" where
  "has_type (JNum n) TNumber = True"
| "has_type (JBool b) TBoolean = True"
| "has_type (JStr s) TString = True"
| "has_type v t = False"

text \<open>
  An answer object with its two properties, \<open>answerId\<close> and \<open>text\<close> (here
  \<open>answerText\<close>); an absent property reads \<open>JUndefined\<close>. The \<open>note\<close> attribute is
  \<open>noteText\<close>.
  The attributes record carries the fields that edit.js reads or writes in the modelled
  logic; the styling and label fields are passed through to sub-components untouched.
  \<open>closedAfterDateTime\<close> is \<open>null\<close> or a date string: it is held as the instant the
  string denotes, in milliseconds, \<open>None\<close> for \<open>null\<close>.
\<close>

record answer =
  answerId :: jsval
  answerText :: jsval

record attributes =
  pollId :: jsval
  noteText :: string
  answers :: "answer list"
  pollStatus :: string
  closedPollState :: string
  closedAfterDateTime :: "int option"

text \<open>
  The values of \<open>./constants\<close>, which is not among the sources: they are parameters of
  every function that compares against them.
\<close>

record constants =
  PollStatus_OPEN :: string
  PollStatus_CLOSED :: string
  ClosedPollState_SHOW_RESULTS :: string
  ClosedPollState_HIDDEN :: string

section \<open>The poll data read from the API (edit.js, lines 85-94)\<close>

text \<open>An entry \<open>{ client_id, id }\<close> of the snapshot; \<open>id\<close> is \<open>server_id\<close> here.\<close>

record api_answer =
  client_id :: string
  server_id :: int

record poll_data =
  poll_id :: int
  viewResultsUrl :: string
  api_answers :: "api_answer list"

text \<open>
  \<open>pollDataFromApi\<close> is an object or \<open>null\<close>/\<open>undefined\<close>; an object is always truthy,
  so the three conditionals on it are a case distinction on an option.
\<close>

definition get_viewResultsUrl :: "poll_data option \<Rightarrow> string" where
  "get_viewResultsUrl pd = (case pd of Some d \<Rightarrow> viewResultsUrl d | None \<Rightarrow> [])"

definition get_pollIdFromApi :: "poll_data option \<Rightarrow> int option" where
  "get_pollIdFromApi pd = (case pd of Some d \<Rightarrow> Some (poll_id d) | None \<Rightarrow> None)"

text \<open>
  \<open>answerIdMap\<close> starts as the plain object \<open>{}\<close>, held here as its own entries; every
  entry of the snapshot assigns \<open>answerIdMap[answer.client_id] = answer.id\<close>, in list
  order, so a later entry with the same key overwrites an earlier one. On a plain object
  the key \<open>__proto__\<close> is the prototype accessor: assigning a number to it stores no
  entry.
\<close>

definition set_answer_id :: "api_answer \<Rightarrow> (string \<rightharpoonup> int) \<Rightarrow> (string \<rightharpoonup> int)" where
  "set_answer_id e m =
     (if client_id e = ''__proto__'' then m else m(client_id e \<mapsto> server_id e))"

definition get_answerIdMap :: "poll_data option \<Rightarrow> (string \<rightharpoonup> int)" where
  "get_answerIdMap pd =
     (case pd of Some d \<Rightarrow> fold set_answer_id (api_answers d) Map.empty | None \<Rightarrow> Map.empty)"

section \<open>Identifier assignment (edit.js, withPollAndAnswerIds)\<close>

text \<open>
  \<open>uuidv4\<close> comes from the \<open>uuid\<close> package. Its successive results are a parameter
  \<open>gen\<close> (the \<open>k\<close>-th call returns \<open>gen k\<close>); the number of calls made so far is
  threaded through the functions that call it.
\<close>

definition uuidv4 :: "(nat \<Rightarrow> string) \<Rightarrow> nat \<Rightarrow> string \<times> nat" where
  "uuidv4 gen k = (gen k, Suc k)"

text \<open>
  The partial attribute objects passed to \<open>setAttributes\<close>: \<open>{ pollId: thePollId }\<close> and
  \<open>{ answers }\<close>. The host merges a patch into the block's attributes.
\<close>

datatype patch = SetPollId jsval | SetAnswers "answer list"

fun setAttributes :: "patch \<Rightarrow> attributes \<Rightarrow> attributes" where
  "setAttributes (SetPollId v) a = a\<lparr>pollId := v\<rparr>"
| "setAttributes (SetAnswers xs) a = a\<lparr>answers := xs\<rparr>"

text \<open>lodash's \<open>some\<close>: the predicate's result is tested for truthiness.\<close>

definition lodash_some :: "'a list \<Rightarrow> ('a \<Rightarrow> jsval) \<Rightarrow> bool" where
  "lodash_some xs p = list_ex (\<lambda>x. truthy (p x)) xs"

text \<open>\<open>( a ) => ! a.answerId && a.text\<close>\<close>

definition lacks_id_has_text :: "answer \<Rightarrow> jsval" where
  "lacks_id_has_text a = js_and (JBool (\<not> truthy (answerId a))) (answerText a)"

text \<open>\<open>answer.answerId || ! answer.text\<close>, the guard under which the answer is returned as it is.\<close>

definition has_id_or_no_text :: "answer \<Rightarrow> jsval" where
  "has_id_or_no_text a = js_or (answerId a) (JBool (\<not> truthy (answerText a)))"

text \<open>
  The \<open>map\<close> over \<open>attributes.answers\<close> (lines 56-62), in list order; every answer that
  is not returned as it is draws the next identifier.
\<close>

fun assign_answer_ids :: "(nat \<Rightarrow> string) \<Rightarrow> nat \<Rightarrow> answer list \<Rightarrow> answer list \<times> nat" where
  "assign_answer_ids gen k [] = ([], k)"
| "assign_answer_ids gen k (a # rest) =
     (if truthy (has_id_or_no_text a)
      then (let (r, k') = assign_answer_ids gen k rest in (a # r, k'))
      else (let (u, k1) = uuidv4 gen k;
                (r, k') = assign_answer_ids gen k1 rest
            in (a\<lparr>answerId := JStr u\<rparr> # r, k')))"

text \<open>
  The body of the effect (lines 51-65): the patches it passes to \<open>setAttributes\<close>, in
  order, and the number of identifiers drawn. Both tests read the attributes the
  component was rendered with.
\<close>

definition withPollAndAnswerIds_effect ::
  "(nat \<Rightarrow> string) \<Rightarrow> nat \<Rightarrow> attributes \<Rightarrow> patch list \<times> nat" where
  "withPollAndAnswerIds_effect gen k a =
     (let (ps1, k1) =
            (if \<not> truthy (pollId a)
             then (let (thePollId, k') = uuidv4 gen k in ([SetPollId (JStr thePollId)], k'))
             else ([], k));
          (ps2, k2) =
            (if lodash_some (answers a) lacks_id_has_text
             then (let (xs, k') = assign_answer_ids gen k1 (answers a) in ([SetAnswers xs], k'))
             else ([], k1))
      in (ps1 @ ps2, k2))"

text \<open>One evaluation pass: the effect runs and the host applies its patches.\<close>

definition withPollAndAnswerIds_pass ::
  "(nat \<Rightarrow> string) \<Rightarrow> nat \<Rightarrow> attributes \<Rightarrow> attributes \<times> nat" where
  "withPollAndAnswerIds_pass gen k a =
     (let (ps, k') = withPollAndAnswerIds_effect gen k a in (fold setAttributes ps a, k'))"

text \<open>A sample identifier sequence and sample attributes, for evaluating the pass.\<close>

definition sample_uuids :: "nat \<Rightarrow> string" where
  "sample_uuids n = ''uuid-'' @ replicate (Suc n) (CHR ''a'')"

definition sample_attributes :: attributes where
  "sample_attributes =
     \<lparr>pollId = JNull, noteText = [],
      answers = [\<lparr>answerId = JUndefined, answerText = JStr ''Yes''\<rparr>,
                 \<lparr>answerId = JUndefined, answerText = JUndefined\<rparr>,
                 \<lparr>answerId = JStr ''kept'', answerText = JStr ''No''\<rparr>],
      pollStatus = ''open'', closedPollState = ''show-results'',
      closedAfterDateTime = None\<rparr>"

section \<open>Derived presentation state (edit.js, PollBlock)\<close>

text \<open>
  Modelled from the spec: \<open>isPollClosed\<close> is imported from \<open>./util\<close>, which is not among
  the sources. The spec (4.2): closed if the status is explicitly closed, or a
  closed-after timestamp is set and is not in the future, compared against the current
  time. The timestamp is the instant it denotes (\<open>None\<close> when unset), and \<open>now\<close> is the
  current time read by the function.
\<close>

definition isPollClosed :: "constants \<Rightarrow> string \<Rightarrow> int option \<Rightarrow> int \<Rightarrow> bool" where
  "isPollClosed c status closedAfter now =
     (status = PollStatus_CLOSED c \<or> (case closedAfter of None \<Rightarrow> False | Some t \<Rightarrow> t \<le> now))"

definition isClosed :: "constants \<Rightarrow> int \<Rightarrow> attributes \<Rightarrow> bool" where
  "isClosed c now a = isPollClosed c (pollStatus a) (closedAfterDateTime a) now"

definition showResults :: "constants \<Rightarrow> int \<Rightarrow> attributes \<Rightarrow> bool" where
  "showResults c now a = (isClosed c now a \<and> ClosedPollState_SHOW_RESULTS c = closedPollState a)"

definition isHidden :: "constants \<Rightarrow> int \<Rightarrow> attributes \<Rightarrow> bool" where
  "isHidden c now a = (isClosed c now a \<and> ClosedPollState_HIDDEN c = closedPollState a)"

text \<open>\<open>attributes.note || ( isSelected && isPollEditable )\<close>: the note, or the boolean.\<close>

definition showNote :: "attributes \<Rightarrow> bool \<Rightarrow> bool \<Rightarrow> jsval" where
  "showNote a isSelected isPollEditable =
     js_or (JStr (noteText a)) (JBool (isSelected \<and> isPollEditable))"

text \<open>
  The note region of the render (lines 173-189): nothing, the editable rich-text field,
  or the static paragraph.
\<close>

datatype note_element = NoteRichText | NoteParagraph

definition render_note :: "attributes \<Rightarrow> bool \<Rightarrow> bool \<Rightarrow> note_element option" where
  "render_note a isSelected isPollEditable =
     (if truthy (showNote a isSelected isPollEditable)
      then Some (if isPollEditable then NoteRichText else NoteParagraph)
      else None)"

section \<open>Edit lock (edit.js, lines 83 and 110-117)\<close>

text \<open>The two fields read from \<open>getCurrentPost()\<close>: \<open>status\<close> and \<open>content\<close>.\<close>

record post_details =
  post_status :: string
  post_content :: string

fun starts_with :: "string \<Rightarrow> string \<Rightarrow> bool" where
  "starts_with [] ys = True"
| "starts_with (x # xs) [] = False"
| "starts_with (x # xs) (y # ys) = (x = y \<and> starts_with xs ys)"

fun occurs_in :: "string \<Rightarrow> string \<Rightarrow> bool" where
  "occurs_in p [] = (p = [])"
| "occurs_in p (c # cs) = (starts_with p (c # cs) \<or> occurs_in p cs)"

text \<open>
  Modelled from the spec: \<open>pollIdExistsInPageContent\<close> is imported from \<open>./util\<close>, which
  is not among the sources. The spec (4.3): a substring search for the identifier within
  the document's raw content. A poll id that is not a string is no identifier text, and
  is found nowhere.
\<close>

definition pollIdExistsInPageContent :: "jsval \<Rightarrow> string \<Rightarrow> bool" where
  "pollIdExistsInPageContent pid content_str =
     (case pid of JStr s \<Rightarrow> occurs_in s content_str | _ \<Rightarrow> False)"

definition wasBlockAddedBeforeLastPublish :: "attributes \<Rightarrow> post_details \<Rightarrow> bool" where
  "wasBlockAddedBeforeLastPublish a p =
     (''publish'' = post_status p \<and> pollIdExistsInPageContent (pollId a) (post_content p))"

text \<open>
  \<open>useState( true )\<close> gives the first render's value of \<open>isPollEditable\<close>; the effect
  with dependency \<open>isSelected\<close> runs after the first render and after every change of the
  selection, and stores the new value; the edit bar's click stores \<open>true\<close>.
\<close>

definition isPollEditable_useState :: bool where
  "isPollEditable_useState = True"

definition selection_effect :: "attributes \<Rightarrow> post_details \<Rightarrow> bool \<Rightarrow> bool" where
  "selection_effect a p isPollEditable = (\<not> wasBlockAddedBeforeLastPublish a p)"

definition onEditClick :: "bool \<Rightarrow> bool" where
  "onEditClick isPollEditable = True"

text \<open>The state in which the block initializes: the mount, followed by its effect.\<close>

definition isPollEditable_initialized :: "attributes \<Rightarrow> post_details \<Rightarrow> bool" where
  "isPollEditable_initialized a p = selection_effect a p isPollEditable_useState"

section \<open>The answers passed to the results view (edit.js, lines 201-214)\<close>

text \<open>
  Modelled from the spec: \<open>isAnswerEmpty\<close> is imported from \<open>components/poll/util\<close>, which
  is not among the sources. The spec (3): an answer is created empty, with a blank text.
\<close>

definition isAnswerEmpty :: "answer \<Rightarrow> bool" where
  "isAnswerEmpty a = (\<not> truthy (answerText a))"

text \<open>
  Modelled from the spec: \<open>addApiAnswerIds\<close> is imported from \<open>components/poll/util\<close>,
  which is not among the sources. The spec (8): a local answer whose \<open>answerId\<close> is
  strictly equal to a \<open>client_id\<close> of the map receives the mapped numeric id; an answer
  with no matching \<open>client_id\<close> receives none. Every answer is paired with the id it
  receives.
\<close>

definition addApiAnswerIds :: "answer list \<Rightarrow> (string \<rightharpoonup> int) \<Rightarrow> (answer \<times> int option) list" where
  "addApiAnswerIds xs m = map (\<lambda>a. (a, case answerId a of JStr c \<Rightarrow> m c | _ \<Rightarrow> None)) xs"

definition results_answers :: "attributes \<Rightarrow> poll_data option \<Rightarrow> (answer \<times> int option) list" where
  "results_answers a pd =
     addApiAnswerIds (filter (\<lambda>x. \<not> isAnswerEmpty x) (answers a)) (get_answerIdMap pd)"

section \<open>Conformance of written values to the schema\<close>

text \<open>
  A field conforms to its declared type when it is unset (\<open>null\<close>, the declared default,
  or absent) or its value has the declared type. A patch conforms when every field it
  writes does.
\<close>

definition conforms :: "jsval \<Rightarrow> attr_type \<Rightarrow> bool" where
  "conforms v t = (v = JNull \<or> v = JUndefined \<or> has_type v t)"

fun patch_conforms :: "patch \<Rightarrow> bool" where
  "patch_conforms (SetPollId v) = conforms v schema_pollId_type"
| "patch_conforms (SetAnswers xs) =
     list_all (\<lambda>x. conforms (answerId x) schema_answerId_type \<and>
                    conforms (answerText x) schema_text_type) xs"

section \<open>Sample inputs\<close>

text \<open>A block as the editor creates it, after the first answer was typed.\<close>

definition new_poll_attributes :: attributes where
  "new_poll_attributes =
     \<lparr>pollId = JNull, noteText = [],
      answers = [\<lparr>answerId = JUndefined, answerText = JStr ''Yes''\<rparr>,
                 \<lparr>answerId = JUndefined, answerText = JUndefined\<rparr>,
                 \<lparr>answerId = JUndefined, answerText = JUndefined\<rparr>],
      pollStatus = ''open'', closedPollState = ''show-results'',
      closedAfterDateTime = None\<rparr>"

text \<open>A closed poll with two answered options and a blank one.\<close>

definition answered_attributes :: attributes where
  "answered_attributes =
     \<lparr>pollId = JStr ''p'', noteText = [],
      answers = [\<lparr>answerId = JStr ''a'', answerText = JStr ''Yes''\<rparr>,
                 \<lparr>answerId = JUndefined, answerText = JUndefined\<rparr>,
                 \<lparr>answerId = JStr ''b'', answerText = JStr ''No''\<rparr>],
      pollStatus = ''closed'', closedPollState = ''show-results'',
      closedAfterDateTime = None\<rparr>"

text \<open>A snapshot of the poll with the server ids of two client ids.\<close>

definition sample_snapshot :: poll_data where
  "sample_snapshot =
     \<lparr>poll_id = 42, viewResultsUrl = ''https://example.org/results'',
      api_answers = [\<lparr>client_id = ''a'', server_id = 7\<rparr>, \<lparr>client_id = ''c'', server_id = 9\<rparr>]\<rparr>"

definition sample_constants :: constants where
  "sample_constants =
     \<lparr>PollStatus_OPEN = ''open'', PollStatus_CLOSED = ''closed'',
      ClosedPollState_SHOW_RESULTS = ''show-results'', ClosedPollState_HIDDEN = ''hidden''\<rparr>"

section \<open>Identifier assignment: one pass and the next\<close>

lemma truthy_has_id_or_no_text:
  "truthy (has_id_or_no_text a) = (truthy (answerId a) \<or> \<not> truthy (answerText a))"
  by (simp add: has_id_or_no_text_def js_or_def)

lemma truthy_lacks_id_has_text:
  "truthy (lacks_id_has_text a) = (\<not> truthy (answerId a) \<and> truthy (answerText a))"
  by (simp add: lacks_id_has_text_def js_and_def)

text \<open>Position by position, the \<open>map\<close> keeps an answer or gives it a drawn identifier.\<close>

lemma assign_answer_ids_rel:
  "list_all2 (\<lambda>b b'. (truthy (answerId b) \<longrightarrow> b' = b) \<and>
                     (\<not> truthy (answerText b) \<longrightarrow> b' = b) \<and>
                     (\<not> truthy (answerId b) \<and> truthy (answerText b) \<longrightarrow>
                        (\<exists>n. b' = b\<lparr>answerId := JStr (gen n)\<rparr>)))
     xs (fst (assign_answer_ids gen k xs))"
proof (induction xs arbitrary: k)
  case Nil
  show ?case by simp
next
  case (Cons a rest)
  show ?case
  proof (cases "truthy (has_id_or_no_text a)")
    case True
    with Cons[of k] show ?thesis
      by (auto simp: truthy_has_id_or_no_text split: prod.splits)
  next
    case False
    with Cons[of "Suc k"] show ?thesis
      by (auto simp: truthy_has_id_or_no_text uuidv4_def split: prod.splits)
  qed
qed

lemma assign_answer_ids_settled:
  assumes "\<forall>n. gen n \<noteq> []"
  shows "\<not> lodash_some (fst (assign_answer_ids gen k xs)) lacks_id_has_text"
proof (induction xs arbitrary: k)
  case Nil
  show ?case by (simp add: lodash_some_def)
next
  case (Cons a rest)
  show ?case
  proof (cases "truthy (has_id_or_no_text a)")
    case True
    with Cons[of k] show ?thesis
      by (auto simp: truthy_has_id_or_no_text truthy_lacks_id_has_text lodash_some_def
            split: prod.splits)
  next
    case False
    with Cons[of "Suc k"] assms show ?thesis
      by (auto simp: truthy_has_id_or_no_text truthy_lacks_id_has_text lodash_some_def
            uuidv4_def split: prod.splits)
  qed
qed

lemma effect_noop:
  assumes "truthy (pollId b)" and "\<not> lodash_some (answers b) lacks_id_has_text"
  shows "withPollAndAnswerIds_effect gen k b = ([], k)"
  using assms by (simp add: withPollAndAnswerIds_effect_def)

lemma pass_answers:
  "answers (fst (withPollAndAnswerIds_pass gen k a)) =
     (if lodash_some (answers a) lacks_id_has_text
      then fst (assign_answer_ids gen (if truthy (pollId a) then k else Suc k) (answers a))
      else answers a)"
  by (simp add: withPollAndAnswerIds_pass_def withPollAndAnswerIds_effect_def uuidv4_def
           split: prod.splits)

lemma pass_pollId:
  "pollId (fst (withPollAndAnswerIds_pass gen k a)) =
     (if truthy (pollId a) then pollId a else JStr (gen k))"
  by (simp add: withPollAndAnswerIds_pass_def withPollAndAnswerIds_effect_def uuidv4_def
           split: prod.splits)

lemma pass_settled:
  assumes "\<forall>n. gen n \<noteq> []"
  shows "\<not> lodash_some (answers (fst (withPollAndAnswerIds_pass gen k a))) lacks_id_has_text"
  using assms by (simp add: pass_answers assign_answer_ids_settled)

lemma sample_uuids_nonempty: "\<forall>n. sample_uuids n \<noteq> []"
  by (simp add: sample_uuids_def)

lemma sample_pass:
  "withPollAndAnswerIds_pass sample_uuids 0 sample_attributes =
     (sample_attributes\<lparr>pollId := JStr ''uuid-a'',
        answers := [\<lparr>answerId = JStr ''uuid-aa'', answerText = JStr ''Yes''\<rparr>,
                 \<lparr>answerId = JUndefined, answerText = JUndefined\<rparr>,
                 \<lparr>answerId = JStr ''kept'', answerText = JStr ''No''\<rparr>]\<rparr>, 2)"
  by (simp add: withPollAndAnswerIds_pass_def withPollAndAnswerIds_effect_def uuidv4_def
        sample_uuids_def sample_attributes_def lodash_some_def lacks_id_has_text_def
        has_id_or_no_text_def js_and_def js_or_def numeral_2_eq_2)

text \<open>
  C1. Let \<open>uuidv4\<close> return non-empty strings. From any attributes whose \<open>pollId\<close> is
  unset (falsy: \<open>null\<close>, absent, \<open>0\<close> or the empty string), one pass of the effect of
  \<open>withPollAndAnswerIds\<close> sets \<open>pollId\<close> to the identifier drawn at that call, which is
  non-empty; the next pass, on the resulting attributes, calls \<open>setAttributes\<close> not at
  all and leaves the attributes as they are. More generally the effect passes no patch
  whenever \<open>pollId\<close> is set and no answer has text without an id.
\<close>

theorem pollId_assigned_then_noop:
  assumes "\<forall>n. gen n \<noteq> []" and "\<not> truthy (pollId a)"
    and "withPollAndAnswerIds_pass gen k a = (a', k1)"
  shows "pollId a' = JStr (gen k) \<and> gen k \<noteq> [] \<and>
         withPollAndAnswerIds_effect gen k1 a' = ([], k1) \<and>
         withPollAndAnswerIds_pass gen k1 a' = (a', k1) \<and>
         (truthy (pollId b) \<and> \<not> lodash_some (answers b) lacks_id_has_text \<longrightarrow>
            withPollAndAnswerIds_effect gen k2 b = ([], k2))"
proof -
  have a': "a' = fst (withPollAndAnswerIds_pass gen k a)"
    using assms(3) by simp
  have p: "pollId a' = JStr (gen k)"
    using assms(2) by (simp add: a' pass_pollId)
  have ne: "gen k \<noteq> []"
    using assms(1) by simp
  have "truthy (pollId a')"
    using p ne by simp
  moreover have "\<not> lodash_some (answers a') lacks_id_has_text"
    unfolding a' using assms(1) by (rule pass_settled)
  ultimately have e: "withPollAndAnswerIds_effect gen k1 a' = ([], k1)"
    by (rule effect_noop)
  then have again: "withPollAndAnswerIds_pass gen k1 a' = (a', k1)"
    by (simp add: withPollAndAnswerIds_pass_def)
  have general: "truthy (pollId b) \<and> \<not> lodash_some (answers b) lacks_id_has_text \<longrightarrow>
            withPollAndAnswerIds_effect gen k2 b = ([], k2)"
    by (simp add: effect_noop)
  from p ne e again general show ?thesis by blast
qed

theorem pollId_assigned_then_noop_witness:
  "(\<forall>n. sample_uuids n \<noteq> []) \<and> \<not> truthy (pollId sample_attributes) \<and>
   pollId (fst (withPollAndAnswerIds_pass sample_uuids 0 sample_attributes)) = JStr ''uuid-a'' \<and>
   withPollAndAnswerIds_effect sample_uuids 2
     (fst (withPollAndAnswerIds_pass sample_uuids 0 sample_attributes)) = ([], 2)"
  using pollId_assigned_then_noop [OF sample_uuids_nonempty _ sample_pass]
  by (simp add: sample_pass sample_uuids_nonempty) (simp add: sample_attributes_def sample_uuids_def)

text \<open>
  C2. Let \<open>uuidv4\<close> return non-empty strings. One pass keeps the number and order of the
  answers, and at every position: an answer that had non-empty text and no id has a
  non-empty id afterwards, with its text as before; an answer with empty text is returned
  as it was, so one that had no id still has none; and an answer that already had an id
  is returned as it was, text and id.
\<close>

theorem answers_after_pass:
  assumes "\<forall>n. gen n \<noteq> []"
    and "withPollAndAnswerIds_pass gen k a = (a', k')"
    and "i < length (answers a)"
  shows "length (answers a') = length (answers a) \<and>
         (truthy (answerText (answers a ! i)) \<and> \<not> truthy (answerId (answers a ! i)) \<longrightarrow>
            truthy (answerId (answers a' ! i)) \<and>
            answerText (answers a' ! i) = answerText (answers a ! i)) \<and>
         (\<not> truthy (answerText (answers a ! i)) \<longrightarrow>
            answers a' ! i = answers a ! i \<and>
            (\<not> truthy (answerId (answers a ! i)) \<longrightarrow> \<not> truthy (answerId (answers a' ! i)))) \<and>
         (truthy (answerId (answers a ! i)) \<longrightarrow> answers a' ! i = answers a ! i)"
proof -
  define b where "b = answers a ! i"
  define b' where "b' = answers a' ! i"
  have a': "a' = fst (withPollAndAnswerIds_pass gen k a)"
    using assms(2) by simp
  have "length (answers a') = length (answers a) \<and>
        (truthy (answerId b) \<longrightarrow> b' = b) \<and>
        (\<not> truthy (answerText b) \<longrightarrow> b' = b) \<and>
        (\<not> truthy (answerId b) \<and> truthy (answerText b) \<longrightarrow>
           (\<exists>n. b' = b\<lparr>answerId := JStr (gen n)\<rparr>))"
  proof (cases "lodash_some (answers a) lacks_id_has_text")
    case False
    then have same: "answers a' = answers a"
      by (simp add: a' pass_answers)
    from False assms(3) have "\<not> truthy (lacks_id_has_text b)"
      by (auto simp: lodash_some_def list_ex_iff b_def)
    then have "\<not> (\<not> truthy (answerId b) \<and> truthy (answerText b))"
      by (simp add: truthy_lacks_id_has_text)
    with same show ?thesis by (auto simp: b_def b'_def)
  next
    case True
    let ?ys = "fst (assign_answer_ids gen (if truthy (pollId a) then k else Suc k) (answers a))"
    from True have eq: "answers a' = ?ys"
      by (simp add: a' pass_answers)
    have rel: "list_all2 (\<lambda>b b'. (truthy (answerId b) \<longrightarrow> b' = b) \<and>
                     (\<not> truthy (answerText b) \<longrightarrow> b' = b) \<and>
                     (\<not> truthy (answerId b) \<and> truthy (answerText b) \<longrightarrow>
                        (\<exists>n. b' = b\<lparr>answerId := JStr (gen n)\<rparr>))) (answers a) ?ys"
      by (rule assign_answer_ids_rel)
    then have len: "length (answers a') = length (answers a)"
      by (simp add: eq list_all2_lengthD)
    from rel assms(3) have
      "(truthy (answerId (answers a ! i)) \<longrightarrow> ?ys ! i = answers a ! i) \<and>
       (\<not> truthy (answerText (answers a ! i)) \<longrightarrow> ?ys ! i = answers a ! i) \<and>
       (\<not> truthy (answerId (answers a ! i)) \<and> truthy (answerText (answers a ! i)) \<longrightarrow>
          (\<exists>n. ?ys ! i = (answers a ! i)\<lparr>answerId := JStr (gen n)\<rparr>))"
      by (rule list_all2_nthD)
    with len show ?thesis
      unfolding b_def b'_def eq by blast
  qed
  then have len: "length (answers a') = length (answers a)"
    and keep_id: "truthy (answerId b) \<longrightarrow> b' = b"
    and keep_empty: "\<not> truthy (answerText b) \<longrightarrow> b' = b"
    and fresh: "\<not> truthy (answerId b) \<and> truthy (answerText b) \<longrightarrow>
           (\<exists>n. b' = b\<lparr>answerId := JStr (gen n)\<rparr>)"
    by blast+
  have got: "truthy (answerText b) \<and> \<not> truthy (answerId b) \<longrightarrow>
               truthy (answerId b') \<and> answerText b' = answerText b"
  proof
    assume "truthy (answerText b) \<and> \<not> truthy (answerId b)"
    with fresh obtain n where "b' = b\<lparr>answerId := JStr (gen n)\<rparr>" by blast
    with assms(1) show "truthy (answerId b') \<and> answerText b' = answerText b" by simp
  qed
  have still: "\<not> truthy (answerText b) \<longrightarrow>
                 b' = b \<and> (\<not> truthy (answerId b) \<longrightarrow> \<not> truthy (answerId b'))"
    using keep_empty by auto
  from len got still keep_id show ?thesis
    unfolding b_def b'_def by blast
qed

theorem answers_after_pass_witness:
  "(\<forall>n. sample_uuids n \<noteq> []) \<and> (0::nat) < length (answers sample_attributes) \<and>
   truthy (answerText (answers sample_attributes ! 0)) \<and>
   \<not> truthy (answerId (answers sample_attributes ! 0)) \<and>
   truthy (answerId (answers (fst (withPollAndAnswerIds_pass sample_uuids 0 sample_attributes)) ! 0)) \<and>
   length (answers (fst (withPollAndAnswerIds_pass sample_uuids 0 sample_attributes))) = 3"
  using answers_after_pass [OF sample_uuids_nonempty sample_pass, of 0]
  by (simp add: sample_uuids_nonempty sample_pass) (simp add: sample_attributes_def)

text \<open>
  C7. On a newly created block the effect writes \<open>uuidv4()\<close> strings to \<open>pollId\<close> and to
  the \<open>answerId\<close> of the answer with text. The attributes it starts from conform to the
  schema, which declares both fields with type \<open>number\<close>; neither patch it writes does.
\<close>

theorem written_ids_are_strings:
  "fst (withPollAndAnswerIds_effect sample_uuids 0 new_poll_attributes) =
     [SetPollId (JStr ''uuid-a''),
      SetAnswers [\<lparr>answerId = JStr ''uuid-aa'', answerText = JStr ''Yes''\<rparr>,
                  \<lparr>answerId = JUndefined, answerText = JUndefined\<rparr>,
                  \<lparr>answerId = JUndefined, answerText = JUndefined\<rparr>]] \<and>
   patch_conforms (SetPollId (pollId new_poll_attributes)) \<and>
   patch_conforms (SetAnswers (answers new_poll_attributes)) \<and>
   \<not> patch_conforms (fst (withPollAndAnswerIds_effect sample_uuids 0 new_poll_attributes) ! 0) \<and>
   \<not> patch_conforms (fst (withPollAndAnswerIds_effect sample_uuids 0 new_poll_attributes) ! 1)"
  by (simp add: withPollAndAnswerIds_effect_def uuidv4_def
        sample_uuids_def new_poll_attributes_def lodash_some_def lacks_id_has_text_def
        has_id_or_no_text_def js_and_def js_or_def conforms_def schema_pollId_type_def
        schema_answerId_type_def schema_text_type_def)

section \<open>Closed, results and hidden\<close>

text \<open>
  C3. Let the open and the closed status be different strings. The derived flag
  \<open>isClosed\<close> is true exactly when the status is the closed one, or a closed-after
  timestamp is set and is not later than the current time. In particular: open with no
  timestamp is not closed; closed with no timestamp is closed; open with a past timestamp
  is closed; open with a future timestamp is not closed.
\<close>

theorem isClosed_iff:
  assumes "PollStatus_OPEN c \<noteq> PollStatus_CLOSED c"
  shows "(isClosed c now a \<longleftrightarrow>
           pollStatus a = PollStatus_CLOSED c \<or>
           (\<exists>t. closedAfterDateTime a = Some t \<and> t \<le> now)) \<and>
         \<not> isPollClosed c (PollStatus_OPEN c) None now \<and>
         isPollClosed c (PollStatus_CLOSED c) None now \<and>
         (past < now \<longrightarrow> isPollClosed c (PollStatus_OPEN c) (Some past) now) \<and>
         (now < future \<longrightarrow> \<not> isPollClosed c (PollStatus_OPEN c) (Some future) now)"
  using assms by (auto simp: isClosed_def isPollClosed_def split: option.splits)

theorem isClosed_iff_witness:
  "PollStatus_OPEN sample_constants \<noteq> PollStatus_CLOSED sample_constants \<and>
   (999::int) < 1000 \<and> (1000::int) < 1001 \<and>
   isPollClosed sample_constants ''open'' (Some 999) 1000 \<and>
   \<not> isPollClosed sample_constants ''open'' (Some 1001) 1000 \<and>
   \<not> isPollClosed sample_constants ''open'' None 1000 \<and>
   isPollClosed sample_constants ''closed'' None 1000"
  using isClosed_iff [of sample_constants 1000 sample_attributes 999 1001]
  by (simp add: sample_constants_def)

text \<open>
  C5. \<open>showResults\<close> is true if and only if \<open>isClosed\<close> is true and the closed-state
  behaviour attribute equals the show-results value; it is never true when \<open>isClosed\<close>
  is false.
\<close>

theorem showResults_iff:
  "(showResults c now a \<longleftrightarrow>
      isClosed c now a \<and> closedPollState a = ClosedPollState_SHOW_RESULTS c) \<and>
   (\<not> isClosed c now a \<longrightarrow> \<not> showResults c now a)"
  by (auto simp: showResults_def)

theorem showResults_iff_witness:
  "\<not> isClosed sample_constants 1000 sample_attributes \<and>
   \<not> showResults sample_constants 1000 sample_attributes \<and>
   isClosed sample_constants 1000 (sample_attributes\<lparr>pollStatus := ''closed''\<rparr>) \<and>
   showResults sample_constants 1000 (sample_attributes\<lparr>pollStatus := ''closed''\<rparr>)"
proof -
  have o: "\<not> isClosed sample_constants 1000 sample_attributes"
    by (simp add: isClosed_def isPollClosed_def sample_constants_def sample_attributes_def)
  have c: "isClosed sample_constants 1000 (sample_attributes\<lparr>pollStatus := ''closed''\<rparr>)"
    by (simp add: isClosed_def isPollClosed_def sample_constants_def sample_attributes_def)
  have s: "closedPollState (sample_attributes\<lparr>pollStatus := ''closed''\<rparr>) =
             ClosedPollState_SHOW_RESULTS sample_constants"
    by (simp add: sample_constants_def sample_attributes_def)
  from showResults_iff [of sample_constants 1000 sample_attributes] o
  have "\<not> showResults sample_constants 1000 sample_attributes" by blast
  moreover
  from showResults_iff [of sample_constants 1000 "sample_attributes\<lparr>pollStatus := ''closed''\<rparr>"] c s
  have "showResults sample_constants 1000 (sample_attributes\<lparr>pollStatus := ''closed''\<rparr>)" by blast
  ultimately show ?thesis using o c by blast
qed

text \<open>
  C6. Let the show-results and the hidden value be the two different values of the enum.
  For attributes whose closed-state behaviour is one of the two, \<open>isHidden\<close> and
  \<open>showResults\<close> are never both true.
\<close>

theorem isHidden_showResults_exclusive:
  assumes "ClosedPollState_SHOW_RESULTS c \<noteq> ClosedPollState_HIDDEN c"
    and "closedPollState a = ClosedPollState_SHOW_RESULTS c \<or>
         closedPollState a = ClosedPollState_HIDDEN c"
  shows "\<not> (isHidden c now a \<and> showResults c now a)"
proof
  assume both: "isHidden c now a \<and> showResults c now a"
  from both have h: "ClosedPollState_HIDDEN c = closedPollState a"
    by (simp add: isHidden_def)
  from both have s: "ClosedPollState_SHOW_RESULTS c = closedPollState a"
    by (simp add: showResults_def)
  from s h have "ClosedPollState_SHOW_RESULTS c = ClosedPollState_HIDDEN c"
    by (rule trans_sym)
  with assms(1) show False by (rule notE)
qed

theorem isHidden_showResults_exclusive_witness:
  "ClosedPollState_SHOW_RESULTS sample_constants \<noteq> ClosedPollState_HIDDEN sample_constants \<and>
   closedPollState (sample_attributes\<lparr>pollStatus := ''closed''\<rparr>) =
     ClosedPollState_SHOW_RESULTS sample_constants \<and>
   showResults sample_constants 1000 (sample_attributes\<lparr>pollStatus := ''closed''\<rparr>) \<and>
   \<not> isHidden sample_constants 1000 (sample_attributes\<lparr>pollStatus := ''closed''\<rparr>)"
proof -
  have d: "ClosedPollState_SHOW_RESULTS sample_constants \<noteq> ClosedPollState_HIDDEN sample_constants"
    by (simp add: sample_constants_def)
  have s: "closedPollState (sample_attributes\<lparr>pollStatus := ''closed''\<rparr>) =
     ClosedPollState_SHOW_RESULTS sample_constants"
    by (simp add: sample_constants_def sample_attributes_def)
  have r: "showResults sample_constants 1000 (sample_attributes\<lparr>pollStatus := ''closed''\<rparr>)"
    by (simp add: showResults_def isClosed_def isPollClosed_def sample_constants_def
          sample_attributes_def)
  from isHidden_showResults_exclusive [OF d disjI1 [OF s], of 1000] d s r
  show ?thesis by blast
qed

section \<open>The note\<close>

text \<open>
  C10. \<open>showNote\<close> is truthy exactly when the note is non-empty, or the block is selected
  and the poll is editable, and the note region is rendered exactly then. In particular a
  non-empty note is shown, as the static paragraph, when the block is neither selected
  nor editable.
\<close>

theorem showNote_iff:
  "(truthy (showNote a isSelected isPollEditable) \<longleftrightarrow>
      noteText a \<noteq> [] \<or> (isSelected \<and> isPollEditable)) \<and>
   (render_note a isSelected isPollEditable \<noteq> None \<longleftrightarrow>
      noteText a \<noteq> [] \<or> (isSelected \<and> isPollEditable)) \<and>
   (noteText a \<noteq> [] \<longrightarrow>
      truthy (showNote a False False) \<and> render_note a False False = Some NoteParagraph)"
  by (auto simp: showNote_def render_note_def js_or_def)

theorem showNote_iff_witness:
  "noteText (sample_attributes\<lparr>noteText := ''Pick one''\<rparr>) \<noteq> [] \<and>
   truthy (showNote (sample_attributes\<lparr>noteText := ''Pick one''\<rparr>) False False) \<and>
   render_note (sample_attributes\<lparr>noteText := ''Pick one''\<rparr>) False False = Some NoteParagraph \<and>
   render_note sample_attributes False True = None"
  using showNote_iff [of "sample_attributes\<lparr>noteText := ''Pick one''\<rparr>" False False]
    showNote_iff [of sample_attributes False True]
  by (simp add: sample_attributes_def)

section \<open>Edit lock\<close>

lemma starts_with_iff: "starts_with p s \<longleftrightarrow> (\<exists>suf. s = p @ suf)"
  by (induction p s rule: starts_with.induct) auto

text \<open>The search finds the identifier exactly when the content holds it as a substring.\<close>

lemma occurs_in_iff: "occurs_in p s \<longleftrightarrow> (\<exists>pre suf. s = pre @ p @ suf)"
proof (induction s)
  case Nil
  show ?case by auto
next
  case (Cons c cs)
  show ?case
  proof
    assume "occurs_in p (c # cs)"
    then consider "starts_with p (c # cs)" | "occurs_in p cs" by auto
    then show "\<exists>pre suf. c # cs = pre @ p @ suf"
    proof cases
      case 1
      then obtain suf where "c # cs = p @ suf" by (auto simp: starts_with_iff)
      then have "c # cs = [] @ p @ suf" by simp
      then show ?thesis by blast
    next
      case 2
      with Cons obtain pre suf where "cs = pre @ p @ suf" by blast
      then have "c # cs = (c # pre) @ p @ suf" by simp
      then show ?thesis by blast
    qed
  next
    assume "\<exists>pre suf. c # cs = pre @ p @ suf"
    then obtain pre suf where e: "c # cs = pre @ p @ suf" by blast
    show "occurs_in p (c # cs)"
    proof (cases pre)
      case Nil
      with e have "starts_with p (c # cs)" by (auto simp: starts_with_iff)
      then show ?thesis by simp
    next
      case (Cons x pre')
      with e have "cs = pre' @ p @ suf" by simp
      with Cons.IH have "occurs_in p cs" by blast
      then show ?thesis by simp
    qed
  qed
qed

text \<open>
  C4. If the document is published (its stored status is \<open>publish\<close>, the value the
  editor gives a published post and the one line 112 compares against) and the poll's
  identifier string is textually present in the document's raw content, the block
  initializes in a non-editable state; if the status is \<open>draft\<close>, it initializes as
  editable whatever the content.
\<close>

theorem edit_lock_initialized:
  "(post_status p = ''publish'' \<and> pollId a = JStr pid \<and> post_content p = pre @ pid @ suf \<longrightarrow>
      \<not> isPollEditable_initialized a p) \<and>
   (post_status p = ''draft'' \<longrightarrow> isPollEditable_initialized a p)"
proof -
  have "occurs_in pid (pre @ pid @ suf)"
    unfolding occurs_in_iff by blast
  then show ?thesis
    by (auto simp: isPollEditable_initialized_def selection_effect_def
          wasBlockAddedBeforeLastPublish_def pollIdExistsInPageContent_def)
qed

theorem edit_lock_initialized_witness:
  "\<not> isPollEditable_initialized (sample_attributes\<lparr>pollId := JStr ''uuid-a''\<rparr>)
       \<lparr>post_status = ''publish'', post_content = ''<!-- poll '' @ ''uuid-a'' @ '' -->''\<rparr> \<and>
   isPollEditable_initialized (sample_attributes\<lparr>pollId := JStr ''uuid-a''\<rparr>)
       \<lparr>post_status = ''draft'', post_content = ''<!-- poll '' @ ''uuid-a'' @ '' -->''\<rparr>"
  using edit_lock_initialized [of "\<lparr>post_status = ''publish'', post_content = ''<!-- poll '' @ ''uuid-a'' @ '' -->''\<rparr>"
       "sample_attributes\<lparr>pollId := JStr ''uuid-a''\<rparr>" "''uuid-a''" "''<!-- poll ''" "'' -->''"]
    edit_lock_initialized [of "\<lparr>post_status = ''draft'', post_content = ''<!-- poll '' @ ''uuid-a'' @ '' -->''\<rparr>"
       "sample_attributes\<lparr>pollId := JStr ''uuid-a''\<rparr>" "''uuid-a''" "''<!-- poll ''" "'' -->''"]
  by simp

section \<open>Results correlation\<close>

lemma fold_set_answer_id_other:
  "k \<notin> client_id ` set xs \<Longrightarrow> fold set_answer_id xs m k = m k"
  by (induction xs arbitrary: m) (auto simp: set_answer_id_def)

lemma fold_set_answer_id_last:
  assumes "\<forall>e' \<in> set suf. client_id e' \<noteq> client_id e"
    and "client_id e \<noteq> ''__proto__''"
  shows "fold set_answer_id (pre @ e # suf) m (client_id e) = Some (server_id e)"
proof -
  have "client_id e \<notin> client_id ` set suf" using assms(1) by auto
  then show ?thesis
    using assms(2) by (simp add: fold_set_answer_id_other) (simp add: set_answer_id_def)
qed

text \<open>With distinct client ids every entry of the snapshot is the last one for its key.\<close>

lemma fold_set_answer_id_distinct:
  assumes "e \<in> set xs" and "distinct (map client_id xs)"
    and "client_id e \<noteq> ''__proto__''"
  shows "fold set_answer_id xs m (client_id e) = Some (server_id e)"
proof -
  from assms(1) obtain pre suf where xs: "xs = pre @ e # suf"
    by (auto dest: split_list)
  with assms(2) have "client_id e \<notin> client_id ` set suf"
    by simp
  then have "\<forall>e' \<in> set suf. client_id e' \<noteq> client_id e"
    by (metis imageI)
  then show ?thesis
    unfolding xs using assms(3) by (rule fold_set_answer_id_last)
qed

lemma addApiAnswerIds_member:
  "(x, sid) \<in> set (addApiAnswerIds xs m) \<longleftrightarrow>
     x \<in> set xs \<and> sid = (case answerId x of JStr c \<Rightarrow> m c | _ \<Rightarrow> None)"
  by (auto simp: addApiAnswerIds_def)

lemma map_fst_addApiAnswerIds: "map fst (addApiAnswerIds xs m) = xs"
  by (simp add: addApiAnswerIds_def comp_def)

lemma map_fst_results_answers:
  "map fst (results_answers a pd) = filter (\<lambda>x. \<not> isAnswerEmpty x) (answers a)"
  by (simp add: results_answers_def map_fst_addApiAnswerIds)

lemma results_answers_member:
  "(x, sid) \<in> set (results_answers a pd) \<longleftrightarrow>
     x \<in> set (answers a) \<and> \<not> isAnswerEmpty x \<and>
     sid = (case answerId x of JStr c \<Rightarrow> get_answerIdMap pd c | _ \<Rightarrow> None)"
  by (auto simp: results_answers_def addApiAnswerIds_def)

text \<open>
  C8. Let the snapshot be a mapping of client-generated ids (its client ids are distinct,
  and the entry's is not the prototype key) and contain an entry \<open>{client_id: c, id: n}\<close>.
  The correlation of the snapshot keeps every local answer it is given, in order, pairs
  each one whose \<open>answerId\<close> equals \<open>c\<close> with the server id \<open>n\<close>, and gives no server id
  to one whose \<open>answerId\<close> matches no \<open>client_id\<close> of the snapshot. The list passed to
  the results view is the correlation of exactly the non-empty answers, in order: a
  non-empty answer with \<open>answerId\<close> \<open>c\<close> is there with \<open>n\<close>, and whatever is there with no
  matching \<open>client_id\<close> has no server id.
\<close>

theorem results_correlation:
  assumes "e \<in> set (api_answers d)"
    and "distinct (map client_id (api_answers d))"
    and "client_id e \<noteq> ''__proto__''"
  shows "map fst (addApiAnswerIds xs (get_answerIdMap (Some d))) = xs \<and>
         (\<forall>(x, sid) \<in> set (addApiAnswerIds xs (get_answerIdMap (Some d))).
            (answerId x = JStr (client_id e) \<longrightarrow> sid = Some (server_id e)) \<and>
            ((\<forall>e' \<in> set (api_answers d). answerId x \<noteq> JStr (client_id e')) \<longrightarrow> sid = None)) \<and>
         map fst (results_answers a (Some d)) = filter (\<lambda>x. \<not> isAnswerEmpty x) (answers a) \<and>
         (\<forall>x \<in> set (answers a). \<not> isAnswerEmpty x \<and> answerId x = JStr (client_id e) \<longrightarrow>
            (x, Some (server_id e)) \<in> set (results_answers a (Some d))) \<and>
         (\<forall>(x, sid) \<in> set (results_answers a (Some d)).
            (answerId x = JStr (client_id e) \<longrightarrow> sid = Some (server_id e)) \<and>
            ((\<forall>e' \<in> set (api_answers d). answerId x \<noteq> JStr (client_id e')) \<longrightarrow> sid = None))"
proof -
  let ?m = "get_answerIdMap (Some d)"
  have m: "?m (client_id e) = Some (server_id e)"
    using assms by (simp add: get_answerIdMap_def fold_set_answer_id_distinct)
  have n: "?m c = None"
    if "\<forall>e' \<in> set (api_answers d). client_id e' \<noteq> c" for c
  proof -
    from that have "c \<notin> client_id ` set (api_answers d)" by auto
    then show ?thesis by (simp add: get_answerIdMap_def fold_set_answer_id_other)
  qed
  have pairs: "(answerId x = JStr (client_id e) \<longrightarrow> sid = Some (server_id e)) \<and>
               ((\<forall>e' \<in> set (api_answers d). answerId x \<noteq> JStr (client_id e')) \<longrightarrow> sid = None)"
    if mem: "(x, sid) \<in> set (addApiAnswerIds ys ?m)" for x sid ys
  proof (intro conjI impI)
    assume "answerId x = JStr (client_id e)"
    with mem show "sid = Some (server_id e)" by (simp add: addApiAnswerIds_member m)
  next
    assume none: "\<forall>e' \<in> set (api_answers d). answerId x \<noteq> JStr (client_id e')"
    show "sid = None"
    proof (cases "answerId x")
      case (JStr c)
      with none have "\<forall>e' \<in> set (api_answers d). client_id e' \<noteq> c" by auto
      then have "?m c = None" by (rule n)
      with mem JStr show ?thesis by (simp add: addApiAnswerIds_member)
    qed (use mem in \<open>simp_all add: addApiAnswerIds_member\<close>)
  qed
  have 1: "map fst (addApiAnswerIds xs ?m) = xs"
    by (rule map_fst_addApiAnswerIds)
  have 2: "\<forall>(x, sid) \<in> set (addApiAnswerIds xs ?m).
            (answerId x = JStr (client_id e) \<longrightarrow> sid = Some (server_id e)) \<and>
            ((\<forall>e' \<in> set (api_answers d). answerId x \<noteq> JStr (client_id e')) \<longrightarrow> sid = None)"
    using pairs by blast
  have 3: "map fst (results_answers a (Some d)) = filter (\<lambda>x. \<not> isAnswerEmpty x) (answers a)"
    by (rule map_fst_results_answers)
  have 4: "\<forall>x \<in> set (answers a). \<not> isAnswerEmpty x \<and> answerId x = JStr (client_id e) \<longrightarrow>
            (x, Some (server_id e)) \<in> set (results_answers a (Some d))"
    by (simp add: results_answers_member m)
  have 5: "\<forall>(x, sid) \<in> set (results_answers a (Some d)).
            (answerId x = JStr (client_id e) \<longrightarrow> sid = Some (server_id e)) \<and>
            ((\<forall>e' \<in> set (api_answers d). answerId x \<noteq> JStr (client_id e')) \<longrightarrow> sid = None)"
    unfolding results_answers_def using pairs by blast
  from 1 2 3 4 5 show ?thesis by blast
qed

theorem results_correlation_witness:
  "\<lparr>client_id = ''a'', server_id = 7\<rparr> \<in> set (api_answers sample_snapshot) \<and>
   distinct (map client_id (api_answers sample_snapshot)) \<and>
   results_answers answered_attributes (Some sample_snapshot) =
     [(\<lparr>answerId = JStr ''a'', answerText = JStr ''Yes''\<rparr>, Some 7),
      (\<lparr>answerId = JStr ''b'', answerText = JStr ''No''\<rparr>, None)] \<and>
   map fst (results_answers answered_attributes (Some sample_snapshot)) =
     filter (\<lambda>x. \<not> isAnswerEmpty x) (answers answered_attributes)"
proof -
  have i: "\<lparr>client_id = ''a'', server_id = 7\<rparr> \<in> set (api_answers sample_snapshot)"
    by (simp add: sample_snapshot_def)
  have d: "distinct (map client_id (api_answers sample_snapshot))"
    by (simp add: sample_snapshot_def)
  have p: "client_id \<lparr>client_id = ''a'', server_id = 7\<rparr> \<noteq> ''__proto__''"
    by simp
  have r: "results_answers answered_attributes (Some sample_snapshot) =
     [(\<lparr>answerId = JStr ''a'', answerText = JStr ''Yes''\<rparr>, Some 7),
      (\<lparr>answerId = JStr ''b'', answerText = JStr ''No''\<rparr>, None)]"
    by (simp add: results_answers_def addApiAnswerIds_def get_answerIdMap_def set_answer_id_def
        isAnswerEmpty_def sample_snapshot_def answered_attributes_def)
  from results_correlation [OF i d p, of "[]" answered_attributes] i d r show ?thesis by blast
qed

section \<open>Pending poll data\<close>

text \<open>
  C9. While the poll data is \<open>null\<close> or absent (the fetch is pending), the component
  derives the empty results URL, the \<open>null\<close> numeric poll id and the empty
  client-to-server answer-id map; the three derivations are total, so nothing is awaited
  and nothing fails.
\<close>

theorem pending_poll_data_reads_empty:
  "get_viewResultsUrl None = [] \<and> get_pollIdFromApi None = None \<and> get_answerIdMap None = Map.empty"
  by (simp add: get_viewResultsUrl_def get_pollIdFromApi_def get_answerIdMap_def)

end
